theory Spec2Isabelle
  imports Main "HOL-Library.Word"
begin

unbundle bit_operations_syntax

section \<open>Platform constants\<close>

text \<open>
  The error numbers and descriptor indices come from the system headers
  (\<open>cerrno\<close>, \<open>unistd.h\<close>, \<open>climits\<close>); the values are those of Linux. \<open>errno\<close> is a C
  \<open>int\<close>, and the value 0 stands for "no error recorded".
\<close>

definition ENOENT :: int where "ENOENT = 2"
definition EINTR :: int where "EINTR = 4"
definition ENOEXEC :: int where "ENOEXEC = 8"
definition EBADF :: int where "EBADF = 9"
definition ECHILD :: int where "ECHILD = 10"
definition EACCES :: int where "EACCES = 13"
definition ENODEV :: int where "ENODEV = 19"
definition ENOTDIR :: int where "ENOTDIR = 20"
definition ENAMETOOLONG :: int where "ENAMETOOLONG = 36"
definition ELOOP :: int where "ELOOP = 40"
definition ETIMEDOUT :: int where "ETIMEDOUT = 110"
definition ESTALE :: int where "ESTALE = 116"

definition STDIN_FILENO :: int where "STDIN_FILENO = 0"
definition STDOUT_FILENO :: int where "STDOUT_FILENO = 1"
definition STDERR_FILENO :: int where "STDERR_FILENO = 2"

definition PATH_MAX :: nat where "PATH_MAX = 4096"
definition LONG_MAX :: int where "LONG_MAX = 2 ^ 63 - 1"

text \<open>The size of a pointer in bytes (LP64).\<close>

definition sizeof_ptr :: nat where "sizeof_ptr = 8"

section \<open>Executable Resolver: the search-path variable\<close>

text \<open>
  The environment of the process is its list of \<open>NAME=VALUE\<close> entries, kept here as
  pairs. \<open>getenv\<close> returns the value of the first entry with the name, and the null
  pointer (\<open>None\<close>) when there is none.
\<close>

type_synonym environment = "(string \<times> string) list"

definition getenv :: "environment \<Rightarrow> string \<Rightarrow> string option" where
  "getenv environ name = map_of environ name"

definition default_path_env :: string where
  "default_path_env = '':/bin:/usr/bin''"

definition get_path_env :: "environment \<Rightarrow> string" where
  "get_path_env environ =
     (case getenv environ ''PATH'' of Some s \<Rightarrow> s | None \<Rightarrow> default_path_env)"

section \<open>Process Supervisor: poll\<close>

text \<open>
  What the three system calls of \<open>process_exited\<close> answer. \<open>waitpid\<close> with
  \<open>WNOHANG\<close> returns \<open>-1\<close> and sets \<open>errno\<close>, returns \<open>0\<close> while the child has not
  changed state, and returns the child's pid once it has terminated. \<open>sigaction\<close>
  returns non-zero on failure and otherwise reports the handler installed for
  \<open>SIGCHLD\<close>. \<open>stat\<close> on \<open>/proc/<pid>\<close> returns \<open>-1\<close> and sets \<open>errno\<close>, or \<open>0\<close>.
\<close>

datatype sighandler = SIG_DFL | SIG_IGN | SIG_USER

record poll_os =
  waitpid_result :: int
  waitpid_errno :: int
  sigaction_result :: int
  sigchld_handler :: sighandler
  stat_result :: int
  stat_errno :: int

text \<open>
  \<open>mpp::throw_ex<mpp::runtime_error>\<close> is the \<open>Inl\<close> of the result, carrying the
  message.
\<close>

definition process_exited :: "poll_os \<Rightarrow> string + bool" where
  "process_exited os =
     (let result = waitpid_result os in
      if result = -1 then
        if waitpid_errno os \<noteq> ECHILD then Inl ''should not reach here''
        else if sigaction_result os \<noteq> 0 then Inl ''should not reach here''
        else if sigchld_handler os = SIG_IGN
          then Inr (stat_result os = -1 \<and> stat_errno os = ENOENT)
          else Inr True
      else Inr (result = 0))"

section \<open>Process Supervisor: wait\<close>

text \<open>
  The wait status is a C \<open>int\<close>; the macros that read it are those of the C library's
  \<open>sys/wait.h\<close> on Linux.
\<close>

definition WTERMSIG :: "int \<Rightarrow> int" where
  "WTERMSIG status = status AND 0x7f"

definition WIFEXITED :: "int \<Rightarrow> bool" where
  "WIFEXITED status = (WTERMSIG status = 0)"

definition WEXITSTATUS :: "int \<Rightarrow> int" where
  "WEXITSTATUS status = drop_bit 8 (status AND 0xff00)"

definition WIFSIGNALED :: "int \<Rightarrow> bool" where
  "WIFSIGNALED status =
     (drop_bit 1 (signed_take_bit 7 ((status AND 0x7f) + 1)) > 0)"

text \<open>
  The status the kernel hands out: the exit code in bits 8 to 15 for a normal exit, the
  signal number in bits 0 to 6 (and the core-dump flag in bit 7) for a death by signal.
\<close>

definition exited_status :: "int \<Rightarrow> int" where
  "exited_status c = push_bit 8 c"

definition signaled_status :: "int \<Rightarrow> bool \<Rightarrow> int" where
  "signaled_status s core = s OR (if core then 0x80 else 0)"

text \<open>
  One answer of the blocking \<open>waitpid\<close>: a negative return with \<open>errno\<close>, or the pid
  with the status filled in. The kernel is the sequence of answers it gives to the
  successive calls.
\<close>

datatype waitpid_answer = Wait_failed int | Wait_status int

definition exit_outcome :: "int \<Rightarrow> int" where
  "exit_outcome status =
     (if WIFEXITED status then WEXITSTATUS status
      else if WIFSIGNALED status then 0x80 + WTERMSIG status
      else status)"

text \<open>
  The loop of \<open>wait_for\<close> has no bound: it runs for as long as the call is interrupted.
  \<open>None\<close> is the run that never returns.
\<close>

partial_function (option) wait_loop :: "(nat \<Rightarrow> waitpid_answer) \<Rightarrow> nat \<Rightarrow> int option" where
  "wait_loop waitpid i =
     (case waitpid i of
        Wait_failed e \<Rightarrow>
          if e = ECHILD then Some 0
          else if e = EINTR then wait_loop waitpid (Suc i)
          else Some (-1)
      | Wait_status status \<Rightarrow> Some (exit_outcome status))"

definition wait_for :: "(nat \<Rightarrow> waitpid_answer) \<Rightarrow> int option" where
  "wait_for waitpid = wait_loop waitpid 0"

section \<open>Descriptor Sweeper\<close>

text \<open>
  The descriptor table of the process is the set of its open descriptors. \<open>close\<close>
  releases an open descriptor and returns 0; on a descriptor that is not open it returns
  \<open>-1\<close> (with \<open>errno = EBADF\<close>) and changes nothing.
\<close>

type_synonym fd_table = "int set"

definition FAIL_FILENO :: int where
  "FAIL_FILENO = STDERR_FILENO + 1"

definition sys_close :: "fd_table \<Rightarrow> int \<Rightarrow> int \<times> fd_table" where
  "sys_close fds fd = (if fd \<in> fds then (0, fds - {fd}) else (-1, fds))"

definition isdigit :: "char \<Rightarrow> bool" where
  "isdigit c = (48 \<le> (of_char c :: nat) \<and> (of_char c :: nat) \<le> 57)"

text \<open>
  \<open>strtol\<close> in base 10 on a name that starts with a digit (the only names the sweeper
  passes to it): the value of the leading digits, \<open>LONG_MAX\<close> when that does not fit a
  \<open>long\<close>. The result is stored in an \<open>int\<close>, which keeps the low 32 bits.
\<close>

fun strtol_digits :: "nat \<Rightarrow> string \<Rightarrow> nat" where
  "strtol_digits acc [] = acc"
| "strtol_digits acc (c # cs) =
     (if isdigit c then strtol_digits (10 * acc + (of_char c - 48)) cs else acc)"

definition strtol :: "string \<Rightarrow> int" where
  "strtol s = min (int (strtol_digits 0 s)) LONG_MAX"

definition to_int :: "int \<Rightarrow> int" where
  "to_int x = signed_take_bit 31 x"

text \<open>
  The first character of a directory entry's name; the name is a C string, so the first
  character of the empty name is its terminator.
\<close>

definition d_name0 :: "string \<Rightarrow> char" where
  "d_name0 name = (case name of [] \<Rightarrow> CHR 0x00 | c # _ \<Rightarrow> c)"

text \<open>
  The sweep is followed through the descriptor table and through the list of the calls
  it has made so far: \<open>close\<close> of a descriptor, \<open>opendir\<close> and \<open>closedir\<close>.
\<close>

datatype sys_call = Sys_close int | Sys_opendir | Sys_closedir

type_synonym sweep_state = "fd_table \<times> sys_call list"

definition do_close :: "sweep_state \<Rightarrow> int \<Rightarrow> sweep_state" where
  "do_close s fd = (snd (sys_close (fst s) fd), snd s @ [Sys_close fd])"

text \<open>
  One round of the \<open>readdir64\<close> loop: the entry names a descriptor to close when it
  starts with a digit and its number is at least \<open>from_fd + 2\<close>.
\<close>

definition scan_entry :: "int \<Rightarrow> sweep_state \<Rightarrow> string \<Rightarrow> sweep_state" where
  "scan_entry from_fd s name =
     (if isdigit (d_name0 name) \<and> to_int (strtol name) \<ge> from_fd + 2
      then do_close s (to_int (strtol name))
      else s)"

text \<open>
  \<open>opendir(FD_DIR)\<close> answers with the null pointer (\<open>None\<close>) or with a directory
  stream: the descriptor the stream holds and the names that the successive
  \<open>readdir64\<close> calls return. The stream's descriptor is open from \<open>opendir\<close> to
  \<open>closedir\<close>.
\<close>

type_synonym dir_stream = "int \<times> string list"

definition close_all_descriptors :: "dir_stream option \<Rightarrow> fd_table \<Rightarrow> bool \<times> sweep_state" where
  "close_all_descriptors opendir fds =
     (let from_fd = FAIL_FILENO + 1;
          s1 = do_close (fds, []) from_fd;
          s2 = do_close s1 (from_fd + 1)
      in case opendir of
           None \<Rightarrow> (False, (fst s2, snd s2 @ [Sys_opendir]))
         | Some (dfd, names) \<Rightarrow>
             (let s3 = foldl (scan_entry from_fd)
                         (insert dfd (fst s2), snd s2 @ [Sys_opendir]) names
              in (True, (snd (sys_close (fst s3) dfd), snd s3 @ [Sys_closedir]))))"

text \<open>
  The sweep as \<open>child_proc\<close> runs it: the directory scan, and when that is not
  available the loop over every descriptor below \<open>sysconf(_SC_OPEN_MAX)\<close>.
\<close>

definition close_everything :: "dir_stream option \<Rightarrow> int \<Rightarrow> fd_table \<Rightarrow> sweep_state" where
  "close_everything opendir max_fd fds =
     (case close_all_descriptors opendir fds of
        (True, s) \<Rightarrow> s
      | (False, s) \<Rightarrow> foldl do_close s [FAIL_FILENO + 1 .. max_fd - 1])"

text \<open>The decimal name under which the descriptor directory lists a descriptor.\<close>

fun decimal :: "nat \<Rightarrow> string" where
  "decimal n =
     (if n < 10 then [char_of (48 + n)]
      else decimal (n div 10) @ [char_of (48 + n mod 10)])"

declare decimal.simps [simp del]

section \<open>Outcomes of the child-side routines\<close>

text \<open>
  A routine of the child process returns to its caller, or the process image is replaced
  (a successful \<open>execve\<close>: path, arguments and environment of the new image), or the
  process leaves through \<open>_exit\<close>, or \<open>mpp::throw_ex<mpp::runtime_error>\<close> is
  called with a message, or the routine reads or writes outside the object it was given
  (\<open>Fault\<close>: a null pointer, an index outside an array).
\<close>

datatype 'a outcome =
    Ret 'a
  | Replaced string "string list" "string list"
  | Exited int
  | Thrown string
  | Fault

text \<open>
  The state the exec routines work on: \<open>errno\<close>, the argument array (\<open>None\<close> is the
  null pointer; the length of the list is the number of slots the array has), and the
  \<open>execve\<close> calls that have failed so far, each with the path and arguments it was given.
\<close>

record exec_state =
  errno :: int
  argv :: "string option list"
  attempts :: "(string \<times> string list) list"

text \<open>
  The kernel's answer to \<open>execve(path, argv, envp)\<close>: \<open>None\<close> when the image is
  replaced, the error number when the call fails.
\<close>

type_synonym execve_os = "string \<Rightarrow> string list \<Rightarrow> string list \<Rightarrow> int option"

definition argv_strings :: "string option list \<Rightarrow> string list" where
  "argv_strings a = map the (takeWhile (\<lambda>x. x \<noteq> None) a)"

definition sys_execve ::
    "execve_os \<Rightarrow> string \<Rightarrow> string list \<Rightarrow> exec_state \<Rightarrow> exec_state outcome" where
  "sys_execve execve file envp st =
     (if None \<notin> set (argv st) then Fault
      else case execve file (argv_strings (argv st)) envp of
             None \<Rightarrow> Replaced file (argv_strings (argv st)) envp
           | Some e \<Rightarrow>
               Ret (st\<lparr>errno := e,
                       attempts := attempts st @ [(file, argv_strings (argv st))]\<rparr>))"

section \<open>Image Replacement Adapter\<close>

text \<open>
  \<open>memmove a dst src n\<close> copies \<open>n\<close> slots of the array from index \<open>src\<close> to index
  \<open>dst\<close>; \<open>None\<close> when either range leaves the array.
\<close>

definition memmove :: "'a list \<Rightarrow> nat \<Rightarrow> nat \<Rightarrow> nat \<Rightarrow> 'a list option" where
  "memmove a dst src n =
     (if src + n \<le> length a \<and> dst + n \<le> length a
      then Some (take dst a @ take n (drop src a) @ drop (dst + n) a)
      else None)"

definition execve_without_shebang ::
    "execve_os \<Rightarrow> string \<Rightarrow> string list \<Rightarrow> exec_state \<Rightarrow> exec_state outcome" where
  "execve_without_shebang execve file envp st =
     (let a = argv st in
      if None \<notin> set a then Fault
      else
        let argv0 = a ! 0;
            n = length (takeWhile (\<lambda>x. x \<noteq> None) a)
        in case memmove a 2 1 n of
             None \<Rightarrow> Fault
           | Some a1 \<Rightarrow>
               (case sys_execve execve ''/bin/sh'' envp
                       (st\<lparr>argv := a1[0 := Some ''/bin/sh'', 1 := Some file]\<rparr>) of
                  Ret st' \<Rightarrow>
                    (case memmove (argv st') 1 2 n of
                       None \<Rightarrow> Fault
                     | Some a3 \<Rightarrow> Ret (st'\<lparr>argv := a3[0 := argv0]\<rparr>))
                | out \<Rightarrow> out))"

definition execve_or_shebang ::
    "execve_os \<Rightarrow> string \<Rightarrow> string list \<Rightarrow> exec_state \<Rightarrow> exec_state outcome" where
  "execve_or_shebang execve file envp st =
     (case sys_execve execve file envp st of
        Ret st' \<Rightarrow>
          if errno st' = ENOEXEC then execve_without_shebang execve file envp st'
          else Ret st'
      | out \<Rightarrow> out)"

section \<open>Executable Resolver: the candidate list\<close>

text \<open>
  The splitting loop of \<open>effective_pathv\<close>, on the copy of the search path: each round
  takes the characters up to the next colon (or to the end of the string) as one entry,
  \<open>"."\<close> when there are none, and goes on behind the colon.
\<close>

fun split_path :: "nat \<Rightarrow> string \<Rightarrow> string list" where
  "split_path 0 p = []"
| "split_path (Suc i) p =
     (let sep = length (takeWhile (\<lambda>c. c \<noteq> CHR '':'') p)
      in (if sep = 0 then ''.'' else take sep p) # split_path i (drop (sep + 1) p))"

text \<open>
  \<open>effective_pathv\<close> allocates one block of \<open>pathvsize + pathsize\<close> bytes: the array of
  \<open>count + 1\<close> pointers, then room for the copy of the search path. The copy is written
  at \<open>pathv + pathvsize\<close>; \<open>pathv\<close> points to pointers, so this address lies
  \<open>pathvsize * sizeof_ptr\<close> bytes into the block. \<open>malloc\<close> answers whether a block of
  the size is available; the result is the null pointer (\<open>None\<close>) when it is not.
\<close>

definition effective_pathv :: "(nat \<Rightarrow> bool) \<Rightarrow> environment \<Rightarrow> string list option outcome" where
  "effective_pathv malloc environ =
     (let path = get_path_env environ;
          count = count_list path CHR '':'' + 1;
          pathvsize = sizeof_ptr * (count + 1);
          pathsize = length path + 1
      in if \<not> malloc (pathvsize + pathsize) then Ret None
         else
           let p = pathvsize * sizeof_ptr
           in if p + pathsize > pathvsize + pathsize then Fault
              else Ret (Some (split_path count path)))"

section \<open>Path search\<close>

text \<open>
  The environment pointer handed to \<open>mpp_execvpe\<close>: null, the process's own
  \<open>environ\<close>, or another vector.
\<close>

datatype envp_ptr = Envp_null | Envp_environ | Envp_vector "string list"

definition absolute_path :: "string \<Rightarrow> string \<Rightarrow> string" where
  "absolute_path dir file =
     (if last dir \<noteq> CHR ''/'' then dir @ ''/'' @ file else dir @ file)"

definition retry_errno :: "int \<Rightarrow> bool" where
  "retry_errno e \<longleftrightarrow>
     e = EACCES \<or> e = ENOENT \<or> e = ENOTDIR \<or> e = ELOOP \<or> e = ESTALE \<or> e = ENODEV
       \<or> e = ETIMEDOUT"

text \<open>
  The loop over the candidate directories, with \<open>sticky_errno\<close> as an argument. An
  empty directory name would make the loop read \<open>absolute_path[-1]\<close>.
\<close>

fun search_path ::
    "execve_os \<Rightarrow> string \<Rightarrow> string list \<Rightarrow> string list \<Rightarrow> int \<Rightarrow> exec_state
      \<Rightarrow> exec_state outcome" where
  "search_path execve file envp [] sticky_errno st =
     Ret (if sticky_errno \<noteq> 0 then st\<lparr>errno := sticky_errno\<rparr> else st)"
| "search_path execve file envp (dir # dirs) sticky_errno st =
     (if length file + length dir + 2 \<ge> PATH_MAX
      then search_path execve file envp dirs sticky_errno (st\<lparr>errno := ENAMETOOLONG\<rparr>)
      else if dir = [] then Fault
      else case execve_or_shebang execve (absolute_path dir file) envp st of
             Ret st' \<Rightarrow>
               if errno st' = EACCES
                 then search_path execve file envp dirs (errno st') st'
               else if retry_errno (errno st')
                 then search_path execve file envp dirs sticky_errno st'
               else Ret st'
           | out \<Rightarrow> out)"

text \<open>
  What the process can ask of its surroundings: the environment, \<open>malloc\<close>, \<open>execve\<close>
  and the C library's \<open>execvp\<close>, \<open>opendir\<close> on the descriptor directory,
  \<open>sysconf(_SC_OPEN_MAX)\<close>, \<open>chdir\<close> (its return value) and \<open>fork\<close> (its return value).
\<close>

record os =
  os_environ :: environment
  os_malloc :: "nat \<Rightarrow> bool"
  os_execve :: execve_os
  os_execvp :: "string \<Rightarrow> string list \<Rightarrow> int option"
  os_opendir :: "dir_stream option"
  os_open_max :: int
  os_chdir :: "string \<Rightarrow> int"
  os_fork :: int

definition mpp_execvpe :: "os \<Rightarrow> string \<Rightarrow> envp_ptr \<Rightarrow> exec_state \<Rightarrow> exec_state outcome" where
  "mpp_execvpe os file envp st =
     (case envp of
        Envp_vector e \<Rightarrow>
          if file = [] then Ret (st\<lparr>errno := ENOENT\<rparr>)
          else if CHR ''/'' \<in> set file then execve_or_shebang (os_execve os) file e st
          else (case effective_pathv (os_malloc os) (os_environ os) of
                  Ret (Some pathv) \<Rightarrow> search_path (os_execve os) file e pathv 0 st
                | Ret None \<Rightarrow> Fault
                | Replaced p a v \<Rightarrow> Replaced p a v
                | Exited n \<Rightarrow> Exited n
                | Thrown m \<Rightarrow> Thrown m
                | Fault \<Rightarrow> Fault)
      | _ \<Rightarrow>
          if None \<notin> set (argv st) then Fault
          else (case os_execvp os file (argv_strings (argv st)) of
                  None \<Rightarrow> Replaced file (argv_strings (argv st)) (map (\<lambda>(k, v). k @ ''='' @ v) (os_environ os))
                | Some e \<Rightarrow> Ret (st\<lparr>errno := e\<rparr>)))"

section \<open>Child Launcher\<close>

record process_startup =
  cmdline :: "string list"
  env :: "(string \<times> string) list"
  cwd :: string
  stdin_redirected :: bool
  stdout_redirected :: bool
  stderr_redirected :: bool
  merge_outputs :: bool

text \<open>
  A pipe is the two-slot array of its descriptors, read slot and write slot. The
  descriptor calls of the launcher are written down in the order the code makes them,
  each naming the pipe and the slot it takes its descriptor from.
\<close>

datatype pipe_slot = PIPE_READ | PIPE_WRITE
datatype stream = Pstdin | Pstdout | Pstderr

type_synonym pipe = "int \<times> int"

fun pipe_fd :: "pipe \<Rightarrow> pipe_slot \<Rightarrow> int" where
  "pipe_fd (r, w) PIPE_READ = r"
| "pipe_fd (r, w) PIPE_WRITE = w"

record pipes =
  pstdin :: pipe
  pstdout :: pipe
  pstderr :: pipe

fun pipe_of :: "pipes \<Rightarrow> stream \<Rightarrow> pipe" where
  "pipe_of ps Pstdin = pstdin ps"
| "pipe_of ps Pstdout = pstdout ps"
| "pipe_of ps Pstderr = pstderr ps"

datatype fd_call = Close_fd stream pipe_slot | Dup2 stream pipe_slot int

definition child_fd_calls :: "process_startup \<Rightarrow> fd_call list" where
  "child_fd_calls startup =
     (if \<not> stdin_redirected startup then [Close_fd Pstdin PIPE_WRITE] else []) @
     (if \<not> stdout_redirected startup then [Close_fd Pstdout PIPE_READ] else []) @
     [Dup2 Pstdin PIPE_READ STDIN_FILENO, Dup2 Pstdout PIPE_WRITE STDOUT_FILENO] @
     (if merge_outputs startup then [Dup2 Pstdout PIPE_WRITE STDERR_FILENO]
      else (if \<not> stderr_redirected startup then [Close_fd Pstderr PIPE_READ] else []) @
           [Dup2 Pstderr PIPE_WRITE STDERR_FILENO]) @
     [Close_fd Pstdin PIPE_READ, Close_fd Pstdout PIPE_WRITE, Close_fd Pstderr PIPE_WRITE]"

definition parent_fd_calls :: "process_startup \<Rightarrow> fd_call list" where
  "parent_fd_calls startup =
     (if \<not> stdin_redirected startup then [Close_fd Pstdin PIPE_READ] else []) @
     (if \<not> stdout_redirected startup then [Close_fd Pstdout PIPE_WRITE] else []) @
     (if merge_outputs startup then []
      else (if \<not> stderr_redirected startup then [Close_fd Pstderr PIPE_WRITE] else []))"


text \<open>
  Modelled from the spec: \<open>close_fd\<close> is declared outside this file. It releases the
  descriptor it is given; the launcher does not look at a result.
\<close>

definition close_fd :: "fd_table \<Rightarrow> int \<Rightarrow> fd_table" where
  "close_fd fds fd = snd (sys_close fds fd)"

text \<open>
  \<open>dup2(oldfd, newfd)\<close> makes \<open>newfd\<close> an open descriptor and returns it; when
  \<open>oldfd\<close> is not open it returns \<open>-1\<close> (with \<open>errno = EBADF\<close>) and changes nothing.
\<close>

definition dup2 :: "fd_table \<Rightarrow> int \<Rightarrow> int \<Rightarrow> int \<times> fd_table" where
  "dup2 fds oldfd newfd = (if oldfd \<in> fds then (newfd, insert newfd fds) else (-1, fds))"

fun run_fd_call :: "pipes \<Rightarrow> fd_table \<Rightarrow> fd_call \<Rightarrow> fd_table" where
  "run_fd_call ps fds (Close_fd s e) = close_fd fds (pipe_fd (pipe_of ps s) e)"
| "run_fd_call ps fds (Dup2 s e newfd) = snd (dup2 fds (pipe_fd (pipe_of ps s) e) newfd)"

text \<open>
  \<open>child_proc\<close>, from the descriptor calls to \<open>_exit\<close>: the descriptor table the child
  is left with, and how the routine ends. The argument array has \<open>asize + 1\<close> slots.
  \<open>errno0\<close> is the value of \<open>errno\<close> when \<open>mpp_execvpe\<close> is entered.
\<close>

definition child_proc ::
    "os \<Rightarrow> process_startup \<Rightarrow> pipes \<Rightarrow> fd_table \<Rightarrow> int \<Rightarrow> fd_table \<times> unit outcome" where
  "child_proc os startup ps fds errno0 =
     (let fds1 = foldl (run_fd_call ps) fds (child_fd_calls startup);
          argv_array = map Some (cmdline startup) @ [None];
          envp = map (\<lambda>(k, v). k @ ''='' @ v) (env startup);
          fds2 = fst (close_everything (os_opendir os) (os_open_max os) fds1)
      in if os_chdir os (cwd startup) \<noteq> 0
           then (fds2, Thrown ''unable to change current working directory'')
         else
           (case argv_array ! 0 of
              None \<Rightarrow> (fds2, Fault)
            | Some file \<Rightarrow>
                (case mpp_execvpe os file (Envp_vector envp)
                        \<lparr>errno = errno0, argv = argv_array, attempts = []\<rparr> of
                   Ret st' \<Rightarrow> (fds2, Exited 1)
                 | Replaced p a v \<Rightarrow> (fds2, Replaced p a v)
                 | Exited n \<Rightarrow> (fds2, Exited n)
                 | Thrown m \<Rightarrow> (fds2, Thrown m)
                 | Fault \<Rightarrow> (fds2, Fault))))"

text \<open>
  Modelled from the spec: \<open>FD_INVALID\<close> is declared outside this file; it marks the
  thread identifier of the handle as not applicable.
\<close>

definition FD_INVALID :: int where "FD_INVALID = -1"

record process_info =
  info_pid :: int
  info_tid :: int
  info_stdin :: int
  info_stdout :: int
  info_stderr :: int

text \<open>
  \<open>create_process_impl\<close>: in the child the result is that of \<open>child_proc\<close>; in the
  parent it is the handle that has been filled in.
\<close>

definition create_process_impl ::
    "os \<Rightarrow> process_startup \<Rightarrow> pipes \<Rightarrow> fd_table \<Rightarrow> int \<Rightarrow> fd_table \<times> process_info outcome" where
  "create_process_impl os startup ps fds errno0 =
     (let pid = os_fork os in
      if pid < 0 then (fds, Thrown ''unable to fork subprocess'')
      else if pid = 0 then
        (case child_proc os startup ps fds errno0 of
           (fds', Ret u) \<Rightarrow> (fds', Fault)
         | (fds', Replaced p a v) \<Rightarrow> (fds', Replaced p a v)
         | (fds', Exited n) \<Rightarrow> (fds', Exited n)
         | (fds', Thrown m) \<Rightarrow> (fds', Thrown m)
         | (fds', Fault) \<Rightarrow> (fds', Fault))
      else
        (foldl (run_fd_call ps) fds (parent_fd_calls startup),
         Ret \<lparr>info_pid = pid, info_tid = FD_INVALID,
              info_stdin = pipe_fd (pstdin ps) PIPE_WRITE,
              info_stdout = pipe_fd (pstdout ps) PIPE_READ,
              info_stderr = pipe_fd (pstderr ps) PIPE_READ\<rparr>))"

section \<open>Example surroundings\<close>

text \<open>
  Concrete surroundings for the examples below. In \<open>os_script\<close> every file but the
  shell is refused as "not in a recognized binary format"; \<open>execve_demo\<close> denies
  permission for \<open>/bin/ls\<close> and finds no other file.
\<close>

definition os_script :: os where
  "os_script = \<lparr>os_environ = [], os_malloc = (\<lambda>size. True),
     os_execve = (\<lambda>path args envp. if path = ''/bin/sh'' then None else Some ENOEXEC),
     os_execvp = (\<lambda>file args. Some ENOENT), os_opendir = None, os_open_max = 16,
     os_chdir = (\<lambda>dir. 0), os_fork = 0\<rparr>"

definition execve_demo :: execve_os where
  "execve_demo = (\<lambda>path args envp. if path = ''/bin/ls'' then Some EACCES else Some ENOENT)"

text \<open>
  \<open>os_ls\<close>: the search path is \<open>/bin:/usr/bin\<close> and \<open>execve\<close> answers as
  \<open>execve_demo\<close> does.
\<close>

definition os_ls :: os where
  "os_ls = \<lparr>os_environ = [(''PATH'', ''/bin:/usr/bin'')], os_malloc = (\<lambda>size. True),
     os_execve = execve_demo, os_execvp = (\<lambda>file args. Some ENOENT), os_opendir = None,
     os_open_max = 16, os_chdir = (\<lambda>dir. 0), os_fork = 0\<rparr>"

text \<open>
  \<open>os_with\<close>: surroundings in which \<open>chdir\<close> returns the given value and every
  \<open>execve\<close> gets the given answer.
\<close>

definition os_with :: "int \<Rightarrow> int option \<Rightarrow> os" where
  "os_with chdir_result execve_answer =
     \<lparr>os_environ = [], os_malloc = (\<lambda>size. True),
      os_execve = (\<lambda>path args envp. execve_answer),
      os_execvp = (\<lambda>file args. Some ENOENT), os_opendir = None, os_open_max = 16,
      os_chdir = (\<lambda>dir. chdir_result), os_fork = 0\<rparr>"

section \<open>Auxiliary notions\<close>

text \<open>
  The descriptors that the directory scan asks to close, in order, given the names it
  reads.
\<close>

definition scan_fds :: "int \<Rightarrow> string list \<Rightarrow> int list" where
  "scan_fds from_fd names =
     map (\<lambda>name. to_int (strtol name))
       (filter (\<lambda>name. isdigit (d_name0 name) \<and> from_fd + 2 \<le> to_int (strtol name)) names)"

text \<open>
  The segments of a search path: the strings between its colons, in order. A path with
  \<open>n\<close> colons has \<open>n + 1\<close> segments, some of them possibly empty.
\<close>

fun segments :: "string \<Rightarrow> string list" where
  "segments [] = [[]]"
| "segments (c # cs) =
     (if c = CHR '':'' then [] # segments cs
      else (case segments cs of [] \<Rightarrow> [[c]] | s # ss \<Rightarrow> (c # s) # ss))"

section \<open>Properties\<close>

lemmas errno_defs =
  ENOENT_def EINTR_def ENOEXEC_def EBADF_def ECHILD_def EACCES_def ENODEV_def
  ENOTDIR_def ENAMETOOLONG_def ELOOP_def ETIMEDOUT_def ESTALE_def

subsection \<open>Process Supervisor: poll\<close>

lemma process_exited_no_child:
  "waitpid_result os = -1 \<Longrightarrow> waitpid_errno os = ECHILD \<Longrightarrow> sigaction_result os = 0 \<Longrightarrow>
   sigchld_handler os \<noteq> SIG_IGN \<Longrightarrow> process_exited os = Inr True"
  by (simp add: process_exited_def)

text \<open>
  C1. The claim: \<open>process_exited\<close> is false while the child runs (\<open>waitpid\<close> with
  \<open>WNOHANG\<close> returns 0) and true once it has terminated. The code returns
  \<open>result == 0\<close>: it answers true for a running child, and false when \<open>waitpid\<close>
  returns the pid of the terminated child (here 4711).
\<close>

theorem process_exited_inverted:
  "process_exited \<lparr>waitpid_result = 0, waitpid_errno = 0, sigaction_result = 0,
     sigchld_handler = SIG_DFL, stat_result = 0, stat_errno = 0\<rparr> = Inr True \<and>
   process_exited \<lparr>waitpid_result = 4711, waitpid_errno = 0, sigaction_result = 0,
     sigchld_handler = SIG_DFL, stat_result = 0, stat_errno = 0\<rparr> = Inr False"
  by (simp add: process_exited_def)

subsection \<open>Process Supervisor: wait\<close>

lemma mask7: "(127::int) = mask 7"
  by (simp add: mask_eq_exp_minus_1)

lemma mask8: "(255::int) = mask 8"
  by (simp add: mask_eq_exp_minus_1)

lemma and_7f: "(x::int) AND 127 = x mod 128"
  by (subst mask7, simp only: take_bit_eq_mask [symmetric] take_bit_eq_mod, simp)

lemma and_ff: "(x::int) AND 255 = x mod 256"
  by (subst mask8, simp only: take_bit_eq_mask [symmetric] take_bit_eq_mod, simp)

lemma ff00: "(65280::int) = push_bit 8 255"
  by (simp add: push_bit_eq_mult)

lemma and_ff00_push: "push_bit 8 (c::int) AND (65280::int) = push_bit 8 (c AND 255)"
  by (subst ff00, simp only: push_bit_and)

lemma and_ff_small: "0 \<le> c \<Longrightarrow> c \<le> 255 \<Longrightarrow> (c::int) AND 255 = c"
  by (simp add: and_ff)

lemma push_8_low_bits: "push_bit 8 c AND (127::int) = 0"
  by (simp add: and_7f push_bit_eq_mult)

lemma or_80_and_7f: "(s OR 128) AND 127 = (s AND 127) OR ((128::int) AND 127)"
  by (simp only: bit.conj_disj_distrib2)

lemma and_80_7f: "(128::int) AND 127 = 0"
  by simp

lemma and_7f_small: "1 \<le> s \<Longrightarrow> s \<le> 31 \<Longrightarrow> (s::int) AND 127 = s"
  by (simp add: and_7f)

lemma signed_char_small: "1 \<le> s \<Longrightarrow> s \<le> 31 \<Longrightarrow> signed_take_bit 7 (s + 1) = (s::int) + 1"
  by (simp add: signed_take_bit_int_eq_self)

lemma shift_small_pos: "1 \<le> s \<Longrightarrow> s \<le> 31 \<Longrightarrow> drop_bit 1 ((s::int) + 1) > 0"
  by (simp add: drop_bit_eq_div)

lemma drop_push_8: "drop_bit 8 (push_bit 8 (c::int)) = c"
  by (simp add: drop_bit_eq_div push_bit_eq_mult)

lemma exit_code_roundtrip:
  assumes "0 \<le> c" "c \<le> 255"
  shows "drop_bit 8 (push_bit 8 (c::int) AND 65280) = c"
  by (simp only: and_ff00_push and_ff_small [OF assms] drop_push_8)

lemma exit_outcome_exited:
  assumes "0 \<le> c" "c \<le> 255"
  shows "exit_outcome (exited_status c) = c"
proof -
  have "WIFEXITED (exited_status c)"
    by (simp only: WIFEXITED_def WTERMSIG_def exited_status_def push_8_low_bits)
  moreover have "WEXITSTATUS (exited_status c) = c"
    by (simp only: WEXITSTATUS_def exited_status_def exit_code_roundtrip [OF assms])
  ultimately show ?thesis by (simp only: exit_outcome_def if_True)
qed

lemma signal_low_bits:
  assumes "1 \<le> s" "s \<le> 31"
  shows "signaled_status s core AND 127 = s"
proof (cases core)
  case True
  then show ?thesis
    by (simp only: signaled_status_def if_True or_80_and_7f and_80_7f and_7f_small [OF assms])
       simp
next
  case False
  then show ?thesis
    by (simp add: signaled_status_def and_7f_small [OF assms])
qed

lemma exit_outcome_signaled:
  assumes "1 \<le> s" "s \<le> 31"
  shows "exit_outcome (signaled_status s core) = 128 + s"
proof -
  have low: "signaled_status s core AND 127 = s" by (rule signal_low_bits [OF assms])
  have "\<not> WIFEXITED (signaled_status s core)"
    using assms by (simp only: WIFEXITED_def WTERMSIG_def low)
  moreover have "WIFSIGNALED (signaled_status s core)"
    by (simp only: WIFSIGNALED_def low signed_char_small [OF assms] shift_small_pos [OF assms])
  ultimately show ?thesis
    by (simp only: exit_outcome_def WTERMSIG_def low if_True if_False)
qed

lemma wait_loop_skip:
  "(\<And>j. j < k \<Longrightarrow> waitpid (i + j) = Wait_failed EINTR) \<Longrightarrow>
   wait_loop waitpid i = wait_loop waitpid (i + k)"
proof (induction k arbitrary: i)
  case 0
  then show ?case by simp
next
  case (Suc k)
  have "waitpid i = Wait_failed EINTR" using Suc.prems [of 0] by simp
  then have "wait_loop waitpid i = wait_loop waitpid (Suc i)"
    by (subst wait_loop.simps) (simp add: errno_defs)
  also have "\<dots> = wait_loop waitpid (Suc i + k)"
  proof (rule Suc.IH)
    fix j assume "j < k"
    then show "waitpid (Suc i + j) = Wait_failed EINTR"
      using Suc.prems [of "Suc j"] by simp
  qed
  finally show ?case by simp
qed

text \<open>
  C2. When the first \<open>k\<close> calls of \<open>waitpid\<close> are interrupted and call \<open>k\<close> is not,
  \<open>wait_for\<close> returns: 0 when that call reports "no such child", the exit code \<open>c\<close>
  (0 to 255) of a child that exited normally, and \<open>128 + s\<close> for a child killed by
  signal \<open>s\<close> (1 to 31), with or without a core dump.
\<close>

theorem wait_for_outcome:
  assumes "\<forall>j<k. waitpid j = Wait_failed EINTR"
  shows "(waitpid k = Wait_failed ECHILD \<longrightarrow> wait_for waitpid = Some 0) \<and>
     (0 \<le> c \<and> c \<le> 255 \<and> waitpid k = Wait_status (exited_status c)
        \<longrightarrow> wait_for waitpid = Some c) \<and>
     (1 \<le> s \<and> s \<le> 31 \<and> waitpid k = Wait_status (signaled_status s core)
        \<longrightarrow> wait_for waitpid = Some (128 + s))"
proof -
  have skip: "wait_for waitpid = wait_loop waitpid k"
    unfolding wait_for_def using wait_loop_skip [of k waitpid 0] assms by simp
  show ?thesis
    unfolding skip
    by (subst wait_loop.simps, subst wait_loop.simps, subst wait_loop.simps)
       (simp add: exit_outcome_exited exit_outcome_signaled)
qed

theorem wait_for_outcome_witness:
  "wait_for (\<lambda>i. if i < 2 then Wait_failed EINTR else Wait_failed ECHILD) = Some 0 \<and>
   wait_for (\<lambda>i. if i < 2 then Wait_failed EINTR else Wait_status (exited_status 3)) = Some 3 \<and>
   wait_for (\<lambda>i. if i < 2 then Wait_failed EINTR else Wait_status (signaled_status 9 True))
     = Some 137"
  using wait_for_outcome [of 2 "\<lambda>i. if i < 2 then Wait_failed EINTR else Wait_failed ECHILD"]
    wait_for_outcome [of 2 "\<lambda>i. if i < 2 then Wait_failed EINTR else Wait_status (exited_status 3)" 3]
    wait_for_outcome [of 2 "\<lambda>i. if i < 2 then Wait_failed EINTR else Wait_status (signaled_status 9 True)" _ 9 True]
  by simp

subsection \<open>Executable Resolver: the search-path variable\<close>

text \<open>
  C5, as stated: with \<open>PATH\<close> absent or empty the resolver uses the default list. With
  \<open>PATH\<close> set to the empty string the code uses the empty string.
\<close>

theorem get_path_env_empty_counterexample:
  "get_path_env [(''PATH'', '''')] = '''' \<and> get_path_env [(''PATH'', '''')] \<noteq> default_path_env"
  by (simp add: get_path_env_def getenv_def default_path_env_def)

text \<open>
  C5, amended: the resolver uses the default list when \<open>PATH\<close> is absent, and the value
  of the variable whenever it is set, the empty string included.
\<close>

theorem get_path_env_absent_or_value:
  "(getenv environ ''PATH'' = None \<longrightarrow> get_path_env environ = default_path_env) \<and>
   (getenv environ ''PATH'' = Some s \<longrightarrow> get_path_env environ = s)"
  by (simp add: get_path_env_def)

theorem get_path_env_absent_or_value_witness:
  "getenv [(''HOME'', ''/root'')] ''PATH'' = None \<and>
   get_path_env [(''HOME'', ''/root'')] = default_path_env \<and>
   getenv [(''PATH'', '''')] ''PATH'' = Some '''' \<and> get_path_env [(''PATH'', '''')] = ''''"
  using get_path_env_absent_or_value [of "[(''HOME'', ''/root'')]"]
    get_path_env_absent_or_value [of "[(''PATH'', '''')]" "''''"]
  by (simp add: getenv_def)

subsection \<open>Path search\<close>

text \<open>
  C10. With an environment vector of its own and the empty command name,
  \<open>mpp_execvpe\<close> returns with \<open>errno = ENOENT\<close>; nothing else of the state changes, so
  no \<open>execve\<close> has been attempted, whatever the surroundings are.
\<close>

theorem mpp_execvpe_empty_name:
  "mpp_execvpe os [] (Envp_vector e) st = Ret (st\<lparr>errno := ENOENT\<rparr>)"
  by (simp add: mpp_execvpe_def)

subsection \<open>Image Replacement Adapter\<close>

lemma memmove_child_argv: "memmove (map Some args @ [None]) 2 (Suc 0) (length args) = None"
  by (simp add: memmove_def)

lemma takeWhile_child_argv:
  "takeWhile (\<lambda>x. x \<noteq> None) (map Some args @ [None]) = map Some args"
  by (induction args) simp_all

lemma child_argv_has_no_spare_slot:
  "execve_without_shebang execve file envp
     \<lparr>errno = e, argv = map Some args @ [None], attempts = log\<rparr> = Fault"
  by (simp add: execve_without_shebang_def Let_def takeWhile_child_argv memmove_child_argv
      del: not_None_eq)

lemma takeWhile_args:
  "takeWhile (\<lambda>x. x \<noteq> None) (map Some args @ None # r) = map Some args"
  by (induction args) simp_all

lemma execve_without_shebang_in_place:
  "execve_without_shebang execve file envp
     \<lparr>errno = e0, argv = Some arg0 # map Some args @ None # spare # rest, attempts = log\<rparr> =
   (case execve ''/bin/sh'' (''/bin/sh'' # file # args) envp of
      None \<Rightarrow> Replaced ''/bin/sh'' (''/bin/sh'' # file # args) envp
    | Some e \<Rightarrow>
        Ret \<lparr>errno = e, argv = Some arg0 # map Some args @ None # None # rest,
             attempts = log @ [(''/bin/sh'', ''/bin/sh'' # file # args)]\<rparr>)"
proof -
  let ?a = "Some arg0 # map Some args @ None # spare # rest"
  have m1: "memmove ?a 2 (Suc 0) (Suc (length args)) =
      Some (Some arg0 # hd (map Some args @ [None]) # map Some args @ None # rest)"
    by (cases args) (simp_all add: memmove_def)
  let ?b = "Some ''/bin/sh'' # Some file # map Some args @ None # rest"
  have m2: "memmove ?b (Suc 0) 2 (Suc (length args)) =
      Some (Some ''/bin/sh'' # map Some args @ None # None # rest)"
    by (simp add: memmove_def)
  show ?thesis
    by (simp add: execve_without_shebang_def Let_def takeWhile_args m1 sys_execve_def
        argv_strings_def m2 comp_def del: not_None_eq split: option.split)
qed

text \<open>
  C4. The claim: the argument array that the child materializes has the spare slot that
  the in-place shift of \<open>execve_without_shebang\<close> needs. \<open>child_proc\<close> declares
  \<open>argv[asize + 1]\<close>, the arguments and their terminator; the shift moves the terminator
  to index \<open>asize + 1\<close>, outside the array. Here a script without interpreter line is
  started with one argument.
\<close>

theorem child_proc_shebang_fallback_overruns_argv:
  "snd (child_proc os_script
     \<lparr>cmdline = [''./script'', ''x''], env = [], cwd = ''.'', stdin_redirected = False,
        stdout_redirected = False, stderr_redirected = False, merge_outputs = False\<rparr>
     \<lparr>pstdin = (5, 6), pstdout = (7, 8), pstderr = (9, 10)\<rparr> {0, 1, 2, 5, 6, 7, 8, 9, 10} 0)
   = Fault"
proof -
  have "execve_or_shebang (os_execve os_script) ''./script'' []
          \<lparr>errno = 0, argv = map Some [''./script'', ''x''] @ [None], attempts = []\<rparr> = Fault"
    by (simp add: execve_or_shebang_def sys_execve_def os_script_def argv_strings_def
        child_argv_has_no_spare_slot [of _ _ _ _ "[''./script'', ''x'']", simplified])
  then show ?thesis
    by (simp add: child_proc_def Let_def mpp_execvpe_def os_script_def)
qed

subsection \<open>Executable Resolver: the candidate list\<close>

text \<open>
  The splitting loop by itself does what is asked of the resolver: run for as many
  rounds as the path has segments, it yields the segments in order, with \<open>"."\<close> for
  each empty one.
\<close>

lemma segments_not_Nil: "segments p \<noteq> []"
  by (induction p) (simp_all split: list.split)

lemma length_segments: "length (segments p) = count_list p CHR '':'' + 1"
  by (induction p) (auto split: list.split simp add: segments_not_Nil)

lemma hd_segments: "hd (segments p) = takeWhile (\<lambda>c. c \<noteq> CHR '':'') p"
  by (induction p) (auto split: list.split simp add: segments_not_Nil)

lemma take_takeWhile: "take (length (takeWhile P xs)) xs = takeWhile P xs"
  by (induction xs) simp_all

lemma split_path_Suc:
  "split_path (Suc n) p =
     (if takeWhile (\<lambda>c. c \<noteq> CHR '':'') p = [] then ''.''
      else takeWhile (\<lambda>c. c \<noteq> CHR '':'') p) #
     split_path n (drop (Suc (length (takeWhile (\<lambda>c. c \<noteq> CHR '':'') p))) p)"
  by (simp add: Let_def take_takeWhile)

lemma split_path_segments:
  "split_path (Suc (count_list p CHR '':'')) p =
     map (\<lambda>s. if s = [] then ''.'' else s) (segments p)"
proof (induction p)
  case Nil
  then show ?case by simp
next
  case (Cons c cs)
  show ?case
  proof (cases "c = CHR '':''")
    case True
    have "split_path (Suc (Suc (count_list cs CHR '':''))) (CHR '':'' # cs) =
        ''.'' # split_path (Suc (count_list cs CHR '':'')) cs"
      by (subst split_path_Suc) simp
    then show ?thesis using True Cons by (simp del: split_path.simps)
  next
    case False
    obtain s ss where seg: "segments cs = s # ss"
      using segments_not_Nil [of cs] by (cases "segments cs") auto
    have s: "s = takeWhile (\<lambda>c. c \<noteq> CHR '':'') cs"
      using hd_segments [of cs] seg by simp
    have "map (\<lambda>s. if s = [] then ''.'' else s) ss =
        split_path (count_list cs CHR '':'') (drop (Suc (length s)) cs)"
      using Cons seg unfolding s by (subst (asm) split_path_Suc) simp
    moreover have "split_path (Suc (count_list cs CHR '':'')) (c # cs) =
        (c # s) # split_path (count_list cs CHR '':'') (drop (Suc (length s)) cs)"
      using False unfolding s by (subst split_path_Suc) simp
    ultimately show ?thesis using False seg by (simp del: split_path.simps)
  qed
qed

text \<open>
  C6. The claim: \<open>effective_pathv\<close> yields one candidate per segment of the search
  path. The strings are copied to \<open>pathv + pathvsize\<close>, \<open>pathvsize\<close> pointers (not
  bytes) behind the start of the block, which is beyond the end of the block for every
  search path: the routine yields the null pointer (no memory) or writes outside the
  block it allocated.
\<close>

theorem effective_pathv_copies_outside_block:
  "effective_pathv malloc environ = Ret None \<or> effective_pathv malloc environ = Fault"
  by (simp add: effective_pathv_def Let_def sizeof_ptr_def)

subsection \<open>Path search: the loop over the candidates\<close>

lemma search_path_step:
  assumes "length file + length dir + 2 < PATH_MAX" and "dir \<noteq> []"
    and "execve_or_shebang execve (absolute_path dir file) envp st = Ret st'"
  shows "search_path execve file envp (dir # dirs) sticky st =
     (if retry_errno (errno st')
      then search_path execve file envp dirs (if errno st' = EACCES then EACCES else sticky) st'
      else Ret st')"
  using assms by (simp add: retry_errno_def)

lemma retry_errno_not_ENOEXEC: "retry_errno e \<Longrightarrow> e \<noteq> ENOEXEC"
  by (auto simp add: retry_errno_def errno_defs)

lemma execve_or_shebang_plain:
  assumes "None \<in> set (argv st)" and "execve path (argv_strings (argv st)) envp = Some e"
    and "e \<noteq> ENOEXEC"
  shows "execve_or_shebang execve path envp st =
     Ret (st\<lparr>errno := e, attempts := attempts st @ [(path, argv_strings (argv st))]\<rparr>)"
  using assms by (simp add: execve_or_shebang_def sys_execve_def)

lemma search_path_exhausted:
  assumes "argv st = a" and "None \<in> set a"
    and "\<forall>dir\<in>set dirs. PATH_MAX \<le> length file + length dir + 2 \<or>
           (dir \<noteq> [] \<and> (\<exists>e. execve (absolute_path dir file) (argv_strings a) envp = Some e
              \<and> retry_errno e))"
    and "sticky = EACCES \<or>
         (\<exists>dir\<in>set dirs. length file + length dir + 2 < PATH_MAX \<and>
            execve (absolute_path dir file) (argv_strings a) envp = Some EACCES)"
  shows "\<exists>st'. search_path execve file envp dirs sticky st = Ret st' \<and> errno st' = EACCES"
  using assms
proof (induction dirs arbitrary: st sticky)
  case Nil
  then show ?case by (simp add: EACCES_def)
next
  case (Cons dir dirs)
  show ?case
  proof (cases "PATH_MAX \<le> length file + length dir + 2")
    case True
    have "\<exists>st'. search_path execve file envp dirs sticky (st\<lparr>errno := ENAMETOOLONG\<rparr>) = Ret st'
            \<and> errno st' = EACCES"
      using Cons.prems True by (intro Cons.IH) auto
    then show ?thesis using True by simp
  next
    case False
    then obtain e where e: "dir \<noteq> []"
        "execve (absolute_path dir file) (argv_strings a) envp = Some e" "retry_errno e"
      using Cons.prems(3) by auto
    let ?st = "st\<lparr>errno := e,
        attempts := attempts st @ [(absolute_path dir file, argv_strings (argv st))]\<rparr>"
    have run: "execve_or_shebang execve (absolute_path dir file) envp st = Ret ?st"
      using Cons.prems(1,2) e retry_errno_not_ENOEXEC
      by (intro execve_or_shebang_plain) auto
    have step: "search_path execve file envp (dir # dirs) sticky st =
        search_path execve file envp dirs (if e = EACCES then EACCES else sticky) ?st"
      using search_path_step [OF _ e(1) run, of dirs sticky] False e(3) by simp
    have "\<exists>st'. search_path execve file envp dirs (if e = EACCES then EACCES else sticky) ?st
            = Ret st' \<and> errno st' = EACCES"
    proof (rule Cons.IH)
      show "argv ?st = a" using Cons.prems(1) by simp
      show "None \<in> set a" by fact
      show "\<forall>dir\<in>set dirs. PATH_MAX \<le> length file + length dir + 2 \<or>
           (dir \<noteq> [] \<and> (\<exists>e. execve (absolute_path dir file) (argv_strings a) envp = Some e
              \<and> retry_errno e))"
        using Cons.prems(3) by simp
      show "(if e = EACCES then EACCES else sticky) = EACCES \<or>
         (\<exists>dir\<in>set dirs. length file + length dir + 2 < PATH_MAX \<and>
            execve (absolute_path dir file) (argv_strings a) envp = Some EACCES)"
        using Cons.prems(4) e(2) by auto
    qed
    then show ?thesis using step by simp
  qed
qed

text \<open>
  The loop by itself follows the policy asked of the search. For a candidate directory
  on which an execution is attempted and fails (\<open>execve_or_shebang\<close> returns, leaving
  \<open>errno\<close>): the loop goes on with the next candidate exactly when \<open>errno\<close> is one of
  \<open>EACCES\<close>, \<open>ENOENT\<close>, \<open>ENOTDIR\<close>, \<open>ELOOP\<close>, \<open>ESTALE\<close>, \<open>ENODEV\<close>,
  \<open>ETIMEDOUT\<close>, remembering \<open>EACCES\<close>; with any other error it returns at once,
  leaving that error. And when every candidate is skipped as too long or fails with one
  of the seven errors, and one attempt fails with \<open>EACCES\<close>, the loop returns with
  \<open>errno = EACCES\<close>.
\<close>

lemma search_path_error_policy:
  "(length file + length dir + 2 < PATH_MAX \<and> dir \<noteq> [] \<and>
      execve_or_shebang execve (absolute_path dir file) envp st = Ret st' \<longrightarrow>
      search_path execve file envp (dir # dirs) sticky st =
        (if errno st' \<in> {EACCES, ENOENT, ENOTDIR, ELOOP, ESTALE, ENODEV, ETIMEDOUT}
         then search_path execve file envp dirs
                (if errno st' = EACCES then EACCES else sticky) st'
         else Ret st')) \<and>
   (None \<in> set (argv st) \<and>
    (\<forall>d\<in>set ds. PATH_MAX \<le> length file + length d + 2 \<or>
       (d \<noteq> [] \<and> (\<exists>e. execve (absolute_path d file) (argv_strings (argv st)) envp = Some e
          \<and> e \<in> {EACCES, ENOENT, ENOTDIR, ELOOP, ESTALE, ENODEV, ETIMEDOUT}))) \<and>
    (\<exists>d\<in>set ds. length file + length d + 2 < PATH_MAX \<and>
       execve (absolute_path d file) (argv_strings (argv st)) envp = Some EACCES)
    \<longrightarrow> (\<exists>st''. search_path execve file envp ds 0 st = Ret st'' \<and> errno st'' = EACCES))"
proof -
  have set_eq: "e \<in> {EACCES, ENOENT, ENOTDIR, ELOOP, ESTALE, ENODEV, ETIMEDOUT}
      \<longleftrightarrow> retry_errno e" for e
    by (auto simp add: retry_errno_def)
  have step: "length file + length dir + 2 < PATH_MAX \<and> dir \<noteq> [] \<and>
      execve_or_shebang execve (absolute_path dir file) envp st = Ret st' \<longrightarrow>
      search_path execve file envp (dir # dirs) sticky st =
        (if retry_errno (errno st')
         then search_path execve file envp dirs
                (if errno st' = EACCES then EACCES else sticky) st'
         else Ret st')"
    by (intro impI search_path_step) simp_all
  have exhausted: "None \<in> set (argv st) \<and>
    (\<forall>d\<in>set ds. PATH_MAX \<le> length file + length d + 2 \<or>
       (d \<noteq> [] \<and> (\<exists>e. execve (absolute_path d file) (argv_strings (argv st)) envp = Some e
          \<and> retry_errno e))) \<and>
    (\<exists>d\<in>set ds. length file + length d + 2 < PATH_MAX \<and>
       execve (absolute_path d file) (argv_strings (argv st)) envp = Some EACCES)
    \<longrightarrow> (\<exists>st''. search_path execve file envp ds 0 st = Ret st'' \<and> errno st'' = EACCES)"
    by (intro impI search_path_exhausted [where a = "argv st"]) simp_all
  show ?thesis
    unfolding set_eq using step exhausted by (rule conjI)
qed

lemma search_path_error_policy_example:
  "search_path execve_demo ''ls'' [] [''/bin'', ''.''] 0
      \<lparr>errno = 0, argv = [Some ''ls'', None], attempts = []\<rparr> =
    search_path execve_demo ''ls'' [] [''.''] EACCES
      \<lparr>errno = EACCES, argv = [Some ''ls'', None], attempts = [(''/bin/ls'', [''ls''])]\<rparr> \<and>
   (\<exists>st''. search_path execve_demo ''ls'' [] [''/bin'', ''.''] 0
      \<lparr>errno = 0, argv = [Some ''ls'', None], attempts = []\<rparr> = Ret st'' \<and> errno st'' = EACCES)"
  using search_path_error_policy [of "''ls''" "''/bin''" execve_demo "[]"
      "\<lparr>errno = 0, argv = [Some ''ls'', None], attempts = []\<rparr>"
      "\<lparr>errno = EACCES, argv = [Some ''ls'', None], attempts = [(''/bin/ls'', [''ls''])]\<rparr>"
      "[''.'']" 0 "[''/bin'', ''.'']"]
  by (simp add: execve_demo_def execve_or_shebang_def sys_execve_def absolute_path_def
      argv_strings_def PATH_MAX_def errno_defs)

text \<open>
  C7. The claim: during the path search \<open>mpp_execvpe\<close> goes on to the next candidate
  on seven errors, stops on any other, and leaves \<open>EACCES\<close> when the candidates are
  exhausted and one of them was denied. \<open>mpp_execvpe\<close> searches for a name without a
  slash, and takes the candidates from \<open>effective_pathv\<close>, which for every search path
  yields the null pointer or writes outside its block: no candidate is attempted and no
  error is left. Here \<open>ls\<close> is looked for in \<open>/bin:/usr/bin\<close>, with \<open>/bin/ls\<close>
  denied and \<open>/usr/bin/ls\<close> missing.
\<close>

theorem mpp_execvpe_bare_name_no_search:
  "mpp_execvpe os (c # cs) (Envp_vector e) st =
     (if CHR ''/'' \<in> set (c # cs) then execve_or_shebang (os_execve os) (c # cs) e st
      else Fault) \<and>
   mpp_execvpe os_ls ''ls'' (Envp_vector [])
     \<lparr>errno = 0, argv = [Some ''ls'', None], attempts = []\<rparr> = Fault"
  by (simp add: mpp_execvpe_def effective_pathv_def Let_def sizeof_ptr_def)

subsection \<open>Child Launcher: the pipe ends\<close>




subsection \<open>Descriptor Sweeper\<close>

lemma snd_sys_close: "snd (sys_close fds fd) = fds - {fd}"
  by (auto simp add: sys_close_def)

lemma do_close_eq: "do_close s fd = (fst s - {fd}, snd s @ [Sys_close fd])"
  by (simp add: do_close_def snd_sys_close)

lemma foldl_do_close:
  "foldl do_close s xs = (fst s - set xs, snd s @ map Sys_close xs)"
  by (induction xs arbitrary: s) (auto simp add: do_close_eq)

lemma scan_fds_Nil: "scan_fds f [] = []"
  by (simp add: scan_fds_def)

lemma scan_fds_Cons:
  "scan_fds f (name # names) =
     (if isdigit (d_name0 name) \<and> f + 2 \<le> to_int (strtol name)
      then to_int (strtol name) # scan_fds f names else scan_fds f names)"
  by (simp add: scan_fds_def)

lemma foldl_scan_entry:
  "foldl (scan_entry f) s names =
     (fst s - set (scan_fds f names), snd s @ map Sys_close (scan_fds f names))"
  by (induction names arbitrary: s)
     (auto simp add: scan_fds_Nil scan_fds_Cons scan_entry_def do_close_eq)

lemma isdigit_char_of: "d < 10 \<Longrightarrow> isdigit (char_of (48 + d :: nat))"
  by (simp add: isdigit_def)

lemma decimal_digits: "\<forall>c\<in>set (decimal n). isdigit c"
proof (induction n rule: decimal.induct)
  case (1 n)
  show ?case
  proof (cases "n < 10")
    case True
    then show ?thesis by (subst decimal.simps) (simp add: isdigit_char_of)
  next
    case False
    then show ?thesis using 1
      by (subst decimal.simps) (simp add: isdigit_char_of)
  qed
qed

lemma decimal_not_Nil: "decimal n \<noteq> []"
  by (subst decimal.simps) simp

lemma strtol_digits_append:
  "\<forall>c\<in>set xs. isdigit c \<Longrightarrow>
   strtol_digits acc (xs @ ys) = strtol_digits (strtol_digits acc xs) ys"
  by (induction xs arbitrary: acc) simp_all

lemma strtol_digits_decimal: "strtol_digits acc (decimal n) = 10 ^ length (decimal n) * acc + n"
proof (induction n arbitrary: acc rule: decimal.induct)
  case (1 n)
  show ?case
  proof (cases "n < 10")
    case True
    then show ?thesis by (subst (1 2) decimal.simps) (simp add: isdigit_char_of)
  next
    case False
    have "strtol_digits acc (decimal n) =
        strtol_digits (strtol_digits acc (decimal (n div 10))) [char_of (48 + n mod 10)]"
      using False by (subst decimal.simps) (simp add: strtol_digits_append decimal_digits)
    also have "\<dots> = 10 * (10 ^ length (decimal (n div 10)) * acc + n div 10) + n mod 10"
      using False by (simp add: 1 isdigit_char_of)
    also have "\<dots> = 10 ^ length (decimal n) * acc + n"
      using False by (subst (2) decimal.simps) (simp add: algebra_simps)
    finally show ?thesis .
  qed
qed

lemma strtol_decimal: "strtol (decimal n) = min (int n) LONG_MAX"
  by (simp add: strtol_def strtol_digits_decimal)

lemma to_int_strtol_decimal:
  assumes "0 \<le> fd" and "fd < 2 ^ 31"
  shows "to_int (strtol (decimal (nat fd))) = fd"
proof -
  have "strtol (decimal (nat fd)) = fd"
    using assms by (simp add: strtol_decimal LONG_MAX_def)
  moreover have "signed_take_bit 31 fd = fd"
    using assms by (simp add: signed_take_bit_int_eq_self)
  ultimately show ?thesis by (simp add: to_int_def)
qed

lemma d_name0_decimal: "isdigit (d_name0 (decimal n))"
  using decimal_digits [of n] decimal_not_Nil [of n]
  by (cases "decimal n") (simp_all add: d_name0_def)


lemma scan_fds_lower: "fd \<in> set (scan_fds f names) \<Longrightarrow> f + 2 \<le> fd"
  by (auto simp add: scan_fds_def)

lemma scan_fds_decimal:
  assumes "decimal (nat fd) \<in> set names" and "0 \<le> fd" and "fd < 2 ^ 31" and "f + 2 \<le> fd"
  shows "fd \<in> set (scan_fds f names)"
proof -
  have "to_int (strtol (decimal (nat fd))) = fd"
    using assms by (intro to_int_strtol_decimal)
  moreover have "isdigit (d_name0 (decimal (nat fd)))" by (rule d_name0_decimal)
  ultimately show ?thesis
    using assms(1,4) unfolding scan_fds_def by (auto simp add: image_iff intro!: bexI)
qed

lemma close_everything_scan:
  "close_everything (Some (dfd, names)) max_fd fds =
     (insert dfd (fds - {FAIL_FILENO + 1} - {FAIL_FILENO + 2})
        - set (scan_fds (FAIL_FILENO + 1) names) - {dfd},
      [Sys_close (FAIL_FILENO + 1), Sys_close (FAIL_FILENO + 2), Sys_opendir]
        @ map Sys_close (scan_fds (FAIL_FILENO + 1) names) @ [Sys_closedir])"
  by (simp add: close_everything_def close_all_descriptors_def Let_def do_close_eq
      foldl_scan_entry snd_sys_close add.commute)

lemma close_everything_fallback:
  "close_everything None max_fd fds =
     (fds - {FAIL_FILENO + 1} - {FAIL_FILENO + 2} - {FAIL_FILENO + 1 .. max_fd - 1},
      [Sys_close (FAIL_FILENO + 1), Sys_close (FAIL_FILENO + 2), Sys_opendir]
        @ map Sys_close [FAIL_FILENO + 1 .. max_fd - 1])"
  by (simp add: close_everything_def close_all_descriptors_def Let_def do_close_eq
      foldl_do_close add.commute)

lemma scan_result:
  assumes range: "\<forall>fd\<in>fds. 0 \<le> fd \<and> fd < 2 ^ 31"
    and fresh: "dfd \<notin> fds - {FAIL_FILENO + 1, FAIL_FILENO + 2}"
    and listed: "\<forall>fd\<in>fds. FAIL_FILENO + 3 \<le> fd \<longrightarrow> decimal (nat fd) \<in> set names"
  shows "insert dfd (fds - {FAIL_FILENO + 1} - {FAIL_FILENO + 2})
           - set (scan_fds (FAIL_FILENO + 1) names) - {dfd}
         = {fd \<in> fds. fd \<le> FAIL_FILENO}" (is "?l = ?r")
proof (rule set_eqI, rule iffI)
  let ?f = "FAIL_FILENO + 1"
  fix x assume x: "x \<in> ?l"
  then have in_fds: "x \<in> fds" and ne: "x \<noteq> ?f" "x \<noteq> FAIL_FILENO + 2"
    and not_scanned: "x \<notin> set (scan_fds ?f names)" by auto
  have "\<not> FAIL_FILENO + 3 \<le> x"
  proof
    assume big: "FAIL_FILENO + 3 \<le> x"
    then have "decimal (nat x) \<in> set names" using listed in_fds by blast
    then have "x \<in> set (scan_fds ?f names)"
      using range in_fds big by (intro scan_fds_decimal) auto
    then show False using not_scanned by contradiction
  qed
  then show "x \<in> ?r" using in_fds ne by auto
next
  let ?f = "FAIL_FILENO + 1"
  fix x assume x: "x \<in> ?r"
  then have "x \<notin> set (scan_fds ?f names)" using scan_fds_lower [of x ?f names] by auto
  moreover have "x \<noteq> dfd" using x fresh by auto
  ultimately show "x \<in> ?l" using x by auto
qed

lemma close_everything_calls:
  "(Sys_close fd \<in> set (snd (close_everything opendir max_fd fds)) \<longrightarrow> FAIL_FILENO < fd) \<and>
   take 3 (snd (close_everything opendir max_fd fds)) =
     [Sys_close (FAIL_FILENO + 1), Sys_close (FAIL_FILENO + 2), Sys_opendir] \<and>
   (opendir \<noteq> None \<longrightarrow> Sys_close fd \<in> set (drop 3 (snd (close_everything opendir max_fd fds)))
      \<longrightarrow> FAIL_FILENO + 3 \<le> fd) \<and>
   (opendir = None \<longrightarrow>
      drop 3 (snd (close_everything opendir max_fd fds)) =
        map Sys_close [FAIL_FILENO + 1 .. max_fd - 1] \<and>
      fst (close_everything opendir max_fd fds) =
        {x \<in> fds. x \<le> FAIL_FILENO \<or> (max_fd \<le> x \<and> FAIL_FILENO + 2 < x)})"
proof (cases opendir)
  case None
  then show ?thesis by (auto simp add: close_everything_fallback)
next
  case (Some d)
  obtain dfd names where d: "d = (dfd, names)" by (cases d)
  show ?thesis
    using Some d scan_fds_lower [of fd "FAIL_FILENO + 1" names]
    by (auto simp add: close_everything_scan)
qed

lemma close_everything_result:
  assumes "\<forall>fd\<in>fds. 0 \<le> fd \<and> fd < 2 ^ 31"
    and "case opendir of
           None \<Rightarrow> \<forall>fd\<in>fds. fd < max_fd
         | Some (dfd, names) \<Rightarrow>
             dfd < FAIL_FILENO + 3 \<and> dfd \<notin> fds - {FAIL_FILENO + 1, FAIL_FILENO + 2} \<and>
             (\<forall>fd\<in>fds. FAIL_FILENO + 3 \<le> fd \<longrightarrow> decimal (nat fd) \<in> set names)"
  shows "fst (close_everything opendir max_fd fds) = {fd \<in> fds. fd \<le> FAIL_FILENO}"
proof (cases opendir)
  case None
  then have "\<forall>fd\<in>fds. fd < max_fd" using assms(2) by simp
  then show ?thesis using None by (auto simp add: close_everything_fallback)
next
  case (Some d)
  obtain dfd names where d: "d = (dfd, names)" by (cases d)
  show ?thesis
    using assms Some d by (simp add: close_everything_scan scan_result)
qed


text \<open>
  C3, as stated: the sweep closes every open descriptor above 2. Descriptor 3
  (\<open>FAIL_FILENO\<close>) stays open, with the directory scan and with the fallback loop.
\<close>

theorem close_everything_keeps_fail_fileno_counterexample:
  "STDERR_FILENO < 3 \<and>
   3 \<in> fst (close_everything
            (Some (4, [''.'', ''..'', ''0'', ''1'', ''2'', ''3'', ''4'', ''7''])) 1024
            {0, 1, 2, 3, 7}) \<and>
   3 \<in> fst (close_everything None 1024 {0, 1, 2, 3, 7})"
proof -
  have d7: "decimal 7 = ''7''" by code_simp
  have "fst (close_everything (Some (4, [''.'', ''..'', ''0'', ''1'', ''2'', ''3'', ''4'', ''7'']))
          1024 {0, 1, 2, 3, 7}) = {fd \<in> {0, 1, 2, 3, 7}. fd \<le> FAIL_FILENO}"
    by (rule close_everything_result) (simp_all add: FAIL_FILENO_def STDERR_FILENO_def d7)
  moreover have "fst (close_everything None 1024 {0, 1, 2, 3, 7})
      = {fd \<in> {0, 1, 2, 3, 7}. fd \<le> FAIL_FILENO}"
    by (rule close_everything_result) simp_all
  ultimately show ?thesis by (simp add: FAIL_FILENO_def STDERR_FILENO_def)
qed

text \<open>
  C3, amended. The sweep never asks to close a descriptor up to \<open>FAIL_FILENO\<close>: the
  three standard descriptors and descriptor 3 are not closed. Its first three calls are
  \<open>close(4)\<close>, \<open>close(5)\<close> and \<open>opendir\<close>: the two scratch descriptors are closed
  before the directory is opened. When the directory is there, every later \<open>close\<close>,
  that is every \<open>close\<close> of the scan, is of a descriptor from 6 on. When it is not,
  the calls that follow are \<open>close\<close> of 4, 5, ... up to
  \<open>sysconf(_SC_OPEN_MAX) - 1\<close>, and what stays open is what was open up to 3 and what
  was open from that ceiling on (and above 5). Finally, every open descriptor above
  \<open>FAIL_FILENO\<close> is closed, and nothing else, provided that descriptors are
  non-negative \<open>int\<close>s and that, with the directory, the stream takes a free descriptor
  below 6 and the directory lists every open descriptor from 6 on under its decimal
  name, and, without the directory, every open descriptor is below
  \<open>sysconf(_SC_OPEN_MAX)\<close>.
\<close>

theorem close_everything_above_fail_fileno:
  "(Sys_close fd \<in> set (snd (close_everything opendir max_fd fds)) \<longrightarrow> FAIL_FILENO < fd) \<and>
   take 3 (snd (close_everything opendir max_fd fds)) =
     [Sys_close (FAIL_FILENO + 1), Sys_close (FAIL_FILENO + 2), Sys_opendir] \<and>
   (opendir \<noteq> None \<longrightarrow> Sys_close fd \<in> set (drop 3 (snd (close_everything opendir max_fd fds)))
      \<longrightarrow> FAIL_FILENO + 3 \<le> fd) \<and>
   (opendir = None \<longrightarrow>
      drop 3 (snd (close_everything opendir max_fd fds)) =
        map Sys_close [FAIL_FILENO + 1 .. max_fd - 1] \<and>
      fst (close_everything opendir max_fd fds) =
        {x \<in> fds. x \<le> FAIL_FILENO \<or> (max_fd \<le> x \<and> FAIL_FILENO + 2 < x)}) \<and>
   ((\<forall>x\<in>fds. 0 \<le> x \<and> x < 2 ^ 31) \<and>
    (case opendir of
       None \<Rightarrow> \<forall>x\<in>fds. x < max_fd
     | Some (dfd, names) \<Rightarrow>
         dfd < FAIL_FILENO + 3 \<and> dfd \<notin> fds - {FAIL_FILENO + 1, FAIL_FILENO + 2} \<and>
         (\<forall>x\<in>fds. FAIL_FILENO + 3 \<le> x \<longrightarrow> decimal (nat x) \<in> set names))
    \<longrightarrow> fst (close_everything opendir max_fd fds) = {x \<in> fds. x \<le> FAIL_FILENO})"
  using close_everything_calls [where fd = fd and opendir = opendir and max_fd = max_fd
      and fds = fds]
    close_everything_result [where opendir = opendir and max_fd = max_fd and fds = fds]
  by blast

theorem close_everything_above_fail_fileno_witness:
  "take 3 (snd (close_everything
       (Some (4, [''.'', ''..'', ''0'', ''1'', ''2'', ''3'', ''4'', ''7'', ''12''])) 1024
       {0, 1, 2, 3, 5, 7, 12})) = [Sys_close 4, Sys_close 5, Sys_opendir] \<and>
   Sys_close 12 \<in> set (drop 3 (snd (close_everything
       (Some (4, [''.'', ''..'', ''0'', ''1'', ''2'', ''3'', ''4'', ''7'', ''12''])) 1024
       {0, 1, 2, 3, 5, 7, 12}))) \<and> FAIL_FILENO + 3 \<le> 12 \<and>
   fst (close_everything
       (Some (4, [''.'', ''..'', ''0'', ''1'', ''2'', ''3'', ''4'', ''7'', ''12''])) 1024
       {0, 1, 2, 3, 5, 7, 12}) = {0, 1, 2, 3} \<and>
   drop 3 (snd (close_everything None 8 {0, 1, 2, 3, 5, 7, 12})) = map Sys_close [4, 5, 6, 7] \<and>
   fst (close_everything None 8 {0, 1, 2, 3, 5, 7, 12}) = {0, 1, 2, 3, 12} \<and>
   fst (close_everything None 1024 {0, 1, 2, 3, 5, 7, 12}) = {0, 1, 2, 3}"
proof -
  let ?D = "Some (4 :: int, [''.'', ''..'', ''0'', ''1'', ''2'', ''3'', ''4'', ''7'', ''12''])"
  let ?S = "{0, 1, 2, 3, 5, 7, 12} :: int set"
  have d: "decimal 7 = ''7''" "decimal 12 = ''12''" by code_simp+
  have scan: "scan_fds 4 [''.'', ''..'', ''0'', ''1'', ''2'', ''3'', ''4'', ''7'', ''12''] = [7, 12]"
    by code_simp
  have mem: "Sys_close 12 \<in> set (drop 3 (snd (close_everything ?D 1024 ?S)))"
    by (simp add: close_everything_scan FAIL_FILENO_def STDERR_FILENO_def scan)
  have s1: "{x \<in> ?S. x \<le> FAIL_FILENO} = {0, 1, 2, 3}"
    by (auto simp add: FAIL_FILENO_def STDERR_FILENO_def)
  have s2: "{x \<in> ?S. x \<le> FAIL_FILENO \<or> (8 \<le> x \<and> FAIL_FILENO + 2 < x)} = {0, 1, 2, 3, 12}"
    by (auto simp add: FAIL_FILENO_def STDERR_FILENO_def)
  have u: "[FAIL_FILENO + 1 .. 8 - 1] = [4, 5, 6, 7]"
    by (simp add: FAIL_FILENO_def STDERR_FILENO_def upto.simps)
  note scan_run = close_everything_above_fail_fileno
    [where fd = 12 and opendir = ?D and max_fd = 1024 and fds = ?S]
  note short_loop = close_everything_above_fail_fileno
    [where fd = 12 and opendir = None and max_fd = 8 and fds = ?S]
  note full_loop = close_everything_above_fail_fileno
    [where fd = 12 and opendir = None and max_fd = 1024 and fds = ?S]
  have "take 3 (snd (close_everything ?D 1024 ?S)) = [Sys_close 4, Sys_close 5, Sys_opendir]"
    using scan_run by (simp add: FAIL_FILENO_def STDERR_FILENO_def)
  moreover have "FAIL_FILENO + 3 \<le> 12"
    using scan_run mem by simp
  moreover have "fst (close_everything ?D 1024 ?S) = {x \<in> ?S. x \<le> FAIL_FILENO}"
    by (rule scan_run [THEN conjunct2, THEN conjunct2, THEN conjunct2, THEN conjunct2, THEN mp])
       (simp add: FAIL_FILENO_def STDERR_FILENO_def d)
  moreover have "drop 3 (snd (close_everything None 8 ?S)) = map Sys_close [FAIL_FILENO + 1 .. 8 - 1]"
    and "fst (close_everything None 8 ?S) =
      {x \<in> ?S. x \<le> FAIL_FILENO \<or> (8 \<le> x \<and> FAIL_FILENO + 2 < x)}"
    using short_loop by simp_all
  moreover have "fst (close_everything None 1024 ?S) = {x \<in> ?S. x \<le> FAIL_FILENO}"
    by (rule full_loop [THEN conjunct2, THEN conjunct2, THEN conjunct2, THEN conjunct2, THEN mp])
       simp
  ultimately show ?thesis
    using mem by (simp only: s1 s2 u)
qed

subsection \<open>Child Launcher: how the child ends\<close>

lemma child_proc_chdir_failure:
  "os_chdir os (cwd st) \<noteq> 0 \<Longrightarrow>
   snd (child_proc os st ps fds e0) = Thrown ''unable to change current working directory''"
  by (simp add: child_proc_def Let_def)

text \<open>
  C8, as stated: every failing step of the child is fatal. Here the first descriptor
  call of the child, \<open>dup2\<close> of a descriptor that is not open, fails; the child goes on
  and \<open>/bin/true\<close> replaces its image.
\<close>

theorem child_proc_failed_dup2_counterexample:
  "fst (dup2 {0, 1, 2} 20 STDIN_FILENO) = -1 \<and>
   snd (child_proc (os_with 0 None)
     \<lparr>cmdline = [''/bin/true''], env = [], cwd = ''/'', stdin_redirected = True,
        stdout_redirected = True, stderr_redirected = True, merge_outputs = False\<rparr>
     \<lparr>pstdin = (20, 21), pstdout = (22, 23), pstderr = (24, 25)\<rparr> {0, 1, 2} 0)
   = Replaced ''/bin/true'' [''/bin/true''] []"
  by (simp add: dup2_def child_proc_def Let_def os_with_def mpp_execvpe_def
      execve_or_shebang_def sys_execve_def argv_strings_def)

text \<open>
  C8, amended: \<open>child_proc\<close> never returns normally to its caller; the descriptor calls
  (\<open>close_fd\<close>, \<open>dup2\<close>, the sweep) have no say in how the child ends, whether they
  fail or not; and when the working directory has been changed and \<open>mpp_execvpe\<close>
  returns, no image having been replaced, the child leaves through \<open>_exit\<close> with
  status 1.
\<close>

theorem child_proc_endings:
  "snd (child_proc os st ps fds e0) \<noteq> Ret u \<and>
   snd (child_proc os st ps fds e0) = snd (child_proc os st ps' fds' e0) \<and>
   (os_chdir os (cwd st) = 0 \<and> cmdline st = arg0 # args \<and>
    mpp_execvpe os arg0 (Envp_vector (map (\<lambda>(k, v). k @ ''='' @ v) (env st)))
      \<lparr>errno = e0, argv = map Some (arg0 # args) @ [None], attempts = []\<rparr> = Ret st'
    \<longrightarrow> snd (child_proc os st ps fds e0) = Exited 1)"
  by (auto simp add: child_proc_def Let_def split: option.splits outcome.splits)

theorem child_proc_endings_witness:
  "snd (child_proc (os_with 0 (Some ENOENT))
     \<lparr>cmdline = [''/no/such''], env = [], cwd = ''/'', stdin_redirected = False,
        stdout_redirected = False, stderr_redirected = False, merge_outputs = False\<rparr>
     \<lparr>pstdin = (5, 6), pstdout = (7, 8), pstderr = (9, 10)\<rparr> {0, 1, 2, 5, 6, 7, 8, 9, 10} 0)
     = Exited 1"
  using child_proc_endings [of "os_with 0 (Some ENOENT)"
      "\<lparr>cmdline = [''/no/such''], env = [], cwd = ''/'', stdin_redirected = False,
        stdout_redirected = False, stderr_redirected = False, merge_outputs = False\<rparr>"
      "\<lparr>pstdin = (5, 6), pstdout = (7, 8), pstderr = (9, 10)\<rparr>" "{0, 1, 2, 5, 6, 7, 8, 9, 10}" 0
      _ _ _ "''/no/such''" "[]"
      "\<lparr>errno = ENOENT, argv = [Some ''/no/such'', None],
         attempts = [(''/no/such'', [''/no/such''])]\<rparr>"]
  by (simp add: os_with_def mpp_execvpe_def execve_or_shebang_def sys_execve_def
      argv_strings_def errno_defs)

end
